theory Spec2Isabelle
  imports Complex_Main
begin

section \<open>JavaScript values used by the client\<close>

text \<open>
  The client (\<^verbatim>\<open>OTCClient\<close>, ethers v6) handles two kinds of integers: \<^verbatim>\<open>bigint\<close>
  (every \<^verbatim>\<open>uint\<close> the contract binding decodes) and \<^verbatim>\<open>number\<close> (clock values and the
  results of \<^verbatim>\<open>Number(...)\<close>). Both are modelled by mathematical integers; \<^verbatim>\<open>Number\<close> of a
  \<^verbatim>\<open>bigint\<close> is exact below \<open>2^53\<close>, which covers ledger identifiers and timestamps in
  seconds. A thrown \<^verbatim>\<open>Error\<close> is its message, and a fallible step has type
  \<open>string + 'a\<close> with \<open>Inl\<close> the message.
\<close>

type_synonym address = string

definition ZeroAddress :: address where
  "ZeroAddress = ''0x0000000000000000000000000000000000000000''"

text \<open>A value whose runtime type is \<^verbatim>\<open>number\<close> or \<^verbatim>\<open>bigint\<close>.\<close>

datatype jsnum = Number int | BigInt int

definition MixError :: string where
  "MixError = ''Cannot mix BigInt and other types, use explicit conversions''"

text \<open>The operator \<^verbatim>\<open>+\<close>: mixing the two types throws a \<^verbatim>\<open>TypeError\<close>.\<close>

fun js_add :: "jsnum \<Rightarrow> jsnum \<Rightarrow> string + jsnum" where
  "js_add (Number a) (Number b) = Inr (Number (a + b))"
| "js_add (BigInt a) (BigInt b) = Inr (BigInt (a + b))"
| "js_add (Number a) (BigInt b) = Inl MixError"
| "js_add (BigInt a) (Number b) = Inl MixError"

text \<open>The operator \<^verbatim>\<open>>\<close> compares the two types by value and never throws.\<close>

fun js_val :: "jsnum \<Rightarrow> int" where
  "js_val (Number a) = a"
| "js_val (BigInt a) = a"

definition js_gt :: "jsnum \<Rightarrow> jsnum \<Rightarrow> bool" where
  "js_gt a b = (js_val a > js_val b)"

text \<open>\<^verbatim>\<open>toString()\<close> of a non-negative \<^verbatim>\<open>bigint\<close>: its decimal digits.\<close>

definition digit_char :: "nat \<Rightarrow> char" where
  "digit_char d = ''0123456789'' ! d"

fun toString :: "nat \<Rightarrow> string" where
  "toString n =
     (if n < 10 then [digit_char n] else toString (n div 10) @ [digit_char (n mod 10)])"

text \<open>\<^verbatim>\<open>toLowerCase()\<close> on the ASCII letters (addresses are ASCII).\<close>

definition lower_char :: "char \<Rightarrow> char" where
  "lower_char c =
     (case map_of (zip ''ABCDEFGHIJKLMNOPQRSTUVWXYZ'' ''abcdefghijklmnopqrstuvwxyz'') c of
        Some l \<Rightarrow> l
      | None \<Rightarrow> c)"

definition toLowerCase :: "string \<Rightarrow> string" where
  "toLowerCase s = map lower_char s"

section \<open>The ledger as the client sees it\<close>

text \<open>A transaction receipt log: \<^verbatim>\<open>fragment?.name\<close> and the fields of \<^verbatim>\<open>args\<close> the client
  reads (\<open>None\<close> is \<^verbatim>\<open>undefined\<close>).\<close>

record log_args =
  a_orderId :: "nat option"
  a_oldOrderId :: "nat option"
  a_newOrderId :: "nat option"
  a_maker :: "address option"
  a_taker :: "address option"
  a_recipient :: "address option"
  a_amount :: "nat option"
  a_reason :: "string option"
  a_tries :: "nat option"
  a_timestamp :: "nat option"
  a_orderCreationFee :: "nat option"

record event_log =
  fragment_name :: "string option"
  args :: log_args

record receipt =
  hash :: string
  blockNumber :: nat
  logs :: "event_log list"

text \<open>A submitted transaction, by what \<^verbatim>\<open>tx.wait()\<close> resolves or rejects with.\<close>

type_synonym tx = "string + receipt"

text \<open>The struct \<^verbatim>\<open>contract.orders(id)\<close> resolves with. The runtime type of its
  \<^verbatim>\<open>timestamp\<close> is left open.\<close>

record order_struct =
  os_maker :: address
  os_taker :: address
  os_timestamp :: jsnum
  os_isActive :: bool

text \<open>The decoded logs of the five event queries.\<close>

record created_event =
  ce_orderId :: nat
  ce_maker :: address
  ce_taker :: address
  ce_sellToken :: address
  ce_sellAmount :: nat
  ce_buyToken :: address
  ce_buyAmount :: nat
  ce_timestamp :: nat
  ce_orderCreationFee :: nat

record id_event =
  ie_orderId :: nat
  ie_timestamp :: nat

record retry_event =
  re_oldOrderId :: nat
  re_newOrderId :: nat
  re_maker :: address
  re_tries :: nat
  re_timestamp :: nat

text \<open>Everything outside the client: the connected signer (by its address), the contract's
  address, the clock, and what each remote call resolves or rejects with.\<close>

record world =
  signer :: "address option"
  target :: address
  Date_now :: int
  contract_ORDER_EXPIRY :: "string + nat"
  contract_GRACE_PERIOD :: "string + nat"
  contract_orderCreationFee :: "string + nat"
  contract_orders :: "nat \<Rightarrow> string + order_struct option"
  token_balanceOf :: "address \<Rightarrow> address \<Rightarrow> string + nat"
  token_approve :: "address \<Rightarrow> address \<Rightarrow> int \<Rightarrow> string + tx"
  contract_createOrder ::
    "address \<Rightarrow> address \<Rightarrow> int \<Rightarrow> address \<Rightarrow> int \<Rightarrow> nat \<Rightarrow> string + tx"
  contract_fillOrder :: "nat \<Rightarrow> string + tx"
  contract_cancelOrder :: "nat \<Rightarrow> string + tx"
  contract_cleanupExpiredOrders :: "string + tx"
  query_OrderCreated :: "nat \<Rightarrow> nat option \<Rightarrow> string + created_event list"
  query_OrderFilled :: "nat \<Rightarrow> nat option \<Rightarrow> string + id_event list"
  query_OrderCanceled :: "nat \<Rightarrow> nat option \<Rightarrow> string + id_event list"
  query_OrderCleanedUp :: "nat \<Rightarrow> nat option \<Rightarrow> string + id_event list"
  query_RetryOrder :: "nat \<Rightarrow> nat option \<Rightarrow> string + retry_event list"

section \<open>Expiry policy\<close>

record expiry_info =
  orderExpiry :: nat
  gracePeriod :: nat

text \<open>\<^verbatim>\<open>getOrderExpiryInfo\<close>: both constants from the ledger, or the fixed defaults when
  either read is rejected.\<close>

definition getOrderExpiryInfo :: "world \<Rightarrow> expiry_info" where
  "getOrderExpiryInfo w =
     (case (contract_ORDER_EXPIRY w, contract_GRACE_PERIOD w) of
        (Inr e, Inr g) \<Rightarrow> \<lparr>orderExpiry = e, gracePeriod = g\<rparr>
      | _ \<Rightarrow> \<lparr>orderExpiry = 7 * 24 * 60 * 60, gracePeriod = 7 * 24 * 60 * 60\<rparr>)"

text \<open>The clock in seconds, \<^verbatim>\<open>Date.now() / 1000\<close>, not rounded.\<close>

definition now_seconds :: "world \<Rightarrow> real" where
  "now_seconds w = real_of_int (Date_now w) / 1000"

definition isOrderExpired :: "world \<Rightarrow> int \<Rightarrow> bool" where
  "isOrderExpired w timestamp =
     (let info = getOrderExpiryInfo w
      in now_seconds w > real_of_int (timestamp + int (orderExpiry info)))"

definition isInGracePeriod :: "world \<Rightarrow> int \<Rightarrow> bool" where
  "isInGracePeriod w timestamp =
     (let info = getOrderExpiryInfo w; now = now_seconds w
      in now > real_of_int (timestamp + int (orderExpiry info)) \<and>
         now \<le> real_of_int (timestamp + int (orderExpiry info) + int (gracePeriod info)))"

section \<open>The active-order projection\<close>

text \<open>\<^verbatim>\<open>GetActiveOrdersParams\<close>: \<open>None\<close> is an absent (or \<^verbatim>\<open>null\<close>) field; an absent
  \<^verbatim>\<open>toBlock\<close> is \<^verbatim>\<open>"latest"\<close>.\<close>

record get_params =
  gp_fromBlock :: "nat option"
  gp_toBlock :: "nat option"
  gp_makerAddress :: "string option"
  gp_sellToken :: "string option"
  gp_buyToken :: "string option"

record leg =
  token :: address
  amount :: string

record order =
  orderId :: nat
  maker :: address
  taker :: address
  sell :: leg
  buy :: leg
  createdAt :: nat
  orderCreationFee :: string
  isActive :: bool

record pagination_info =
  hasMore :: bool
  nextOffset :: nat

record active_orders =
  orders :: "order list"
  pagination :: pagination_info

text \<open>The object the \<^verbatim>\<open>.map\<close> callback builds from a creation log.\<close>

definition toOrder :: "created_event \<Rightarrow> order" where
  "toOrder event =
     \<lparr>orderId = ce_orderId event,
      maker = ce_maker event,
      taker = ce_taker event,
      sell = \<lparr>token = ce_sellToken event, amount = toString (ce_sellAmount event)\<rparr>,
      buy = \<lparr>token = ce_buyToken event, amount = toString (ce_buyAmount event)\<rparr>,
      createdAt = ce_timestamp event,
      orderCreationFee = toString (ce_orderCreationFee event),
      isActive = True\<rparr>"

text \<open>One optional filter: \<^verbatim>\<open>if (x) list = list.filter(o => field(o).toLowerCase() ===
  x.toLowerCase())\<close>. The empty string is falsy, like \<^verbatim>\<open>null\<close>.\<close>

definition filterBy :: "string option \<Rightarrow> (order \<Rightarrow> string) \<Rightarrow> order list \<Rightarrow> order list" where
  "filterBy x field activeOrders =
     (case x of
        None \<Rightarrow> activeOrders
      | Some v \<Rightarrow>
          if v = [] then activeOrders
          else filter (\<lambda>order. toLowerCase (field order) = toLowerCase v) activeOrders)"

text \<open>The body of \<^verbatim>\<open>getActiveOrders\<close> once the five queries have resolved.\<close>

definition activeOrdersOf ::
  "int \<Rightarrow> get_params \<Rightarrow> created_event list \<Rightarrow> id_event list \<Rightarrow> id_event list \<Rightarrow>
   id_event list \<Rightarrow> retry_event list \<Rightarrow> active_orders" where
  "activeOrdersOf dateNow p createdEvents filledEvents canceledEvents cleanedEvents retryEvents =
     (let filledOrderIds = set (map (\<lambda>e. toString (ie_orderId e)) filledEvents);
          canceledOrderIds = set (map (\<lambda>e. toString (ie_orderId e)) canceledEvents);
          cleanedOrderIds = set (map (\<lambda>e. toString (ie_orderId e)) cleanedEvents);
          retriedOrderIds = set (map (\<lambda>e. toString (re_oldOrderId e)) retryEvents);
          currentTimestamp = dateNow div 1000;
          ORDER_EXPIRY = 7 * 24 * 60 * 60;
          activeOrders =
            map toOrder
              (filter
                (\<lambda>event.
                   let orderId = toString (ce_orderId event);
                       isExpired = (currentTimestamp > int (ce_timestamp event) + ORDER_EXPIRY)
                   in orderId \<notin> filledOrderIds \<and> orderId \<notin> canceledOrderIds \<and>
                      orderId \<notin> cleanedOrderIds \<and> orderId \<notin> retriedOrderIds \<and>
                      \<not> isExpired)
                createdEvents);
          activeOrders = filterBy (gp_makerAddress p) maker activeOrders;
          activeOrders = filterBy (gp_sellToken p) (\<lambda>order. token (sell order)) activeOrders;
          activeOrders = filterBy (gp_buyToken p) (\<lambda>order. token (buy order)) activeOrders
      in \<lparr>orders = activeOrders, pagination = \<lparr>hasMore = False, nextOffset = 0\<rparr>\<rparr>)"

text \<open>\<^verbatim>\<open>getActiveOrders\<close>: the five queries over the block range, joined by
  \<^verbatim>\<open>Promise.all\<close>; a rejected query rejects the whole call (here: the first one in the
  array's order), with the client's prefix.\<close>

definition getActiveOrders :: "world \<Rightarrow> get_params \<Rightarrow> string + active_orders" where
  "getActiveOrders w p =
     (let fromBlock = (case gp_fromBlock p of None \<Rightarrow> 0 | Some b \<Rightarrow> b);
          toBlock = gp_toBlock p;
          failed = (\<lambda>m. Inl (''Failed to fetch active orders: '' @ m))
      in case query_OrderCreated w fromBlock toBlock of
           Inl m \<Rightarrow> failed m
         | Inr createdEvents \<Rightarrow>
        (case query_OrderFilled w fromBlock toBlock of
           Inl m \<Rightarrow> failed m
         | Inr filledEvents \<Rightarrow>
        (case query_OrderCanceled w fromBlock toBlock of
           Inl m \<Rightarrow> failed m
         | Inr canceledEvents \<Rightarrow>
        (case query_OrderCleanedUp w fromBlock toBlock of
           Inl m \<Rightarrow> failed m
         | Inr cleanedEvents \<Rightarrow>
        (case query_RetryOrder w fromBlock toBlock of
           Inl m \<Rightarrow> failed m
         | Inr retryEvents \<Rightarrow>
             Inr (activeOrdersOf (Date_now w) p createdEvents filledEvents canceledEvents
                    cleanedEvents retryEvents))))))"

section \<open>Submitting transactions\<close>

text \<open>Each remote call an operation awaits is recorded, in order. An operation yields the
  calls it issued and either the message of the \<^verbatim>\<open>Error\<close> it rejects with or its result.\<close>

datatype call =
    Call_orderCreationFee
  | Call_orders nat
  | Call_balanceOf address address
  | Call_approve address address int
  | Call_createOrder address address int address int nat
  | Call_fillOrder nat
  | Call_cancelOrder nat
  | Call_cleanupExpiredOrders
  | Call_wait

type_synonym 'a outcome = "call list \<times> (string + 'a)"

definition await :: "call \<Rightarrow> string + 'a \<Rightarrow> 'a outcome" where
  "await c response = ([c], response)"

definition throw :: "string \<Rightarrow> 'a outcome" where
  "throw message = ([], Inl message)"

definition resolve :: "'a \<Rightarrow> 'a outcome" where
  "resolve v = ([], Inr v)"

text \<open>A local computation that may throw (no call is issued).\<close>

definition eval :: "string + 'a \<Rightarrow> 'a outcome" where
  "eval r = ([], r)"

text \<open>Sequencing: the rest runs only when the step did not throw.\<close>

definition andThen :: "'a outcome \<Rightarrow> ('a \<Rightarrow> 'b outcome) \<Rightarrow> 'b outcome" where
  "andThen step rest =
     (case step of
        (cs, Inl message) \<Rightarrow> (cs, Inl message)
      | (cs, Inr v) \<Rightarrow> (case rest v of (cs', r) \<Rightarrow> (cs @ cs', r)))"

text \<open>\<^verbatim>\<open>try { ... } catch (error) { throw new Error(prefix + error.message) }\<close>\<close>

definition rethrow :: "string \<Rightarrow> 'a outcome \<Rightarrow> 'a outcome" where
  "rethrow prefix body =
     (case body of
        (cs, Inl message) \<Rightarrow> (cs, Inl (prefix @ message))
      | (cs, Inr v) \<Rightarrow> (cs, Inr v))"

text \<open>\<^verbatim>\<open>receipt.logs.find(log => log.fragment?.name === name)\<close>\<close>

definition findLog :: "string \<Rightarrow> receipt \<Rightarrow> event_log option" where
  "findLog name r = find (\<lambda>log. fragment_name log = Some name) (logs r)"

text \<open>\<^verbatim>\<open>receipt.logs.filter(log => log.fragment?.name === name)\<close>\<close>

definition filterLogs :: "string \<Rightarrow> receipt \<Rightarrow> event_log list" where
  "filterLogs name r = filter (\<lambda>log. fragment_name log = Some name) (logs r)"

text \<open>\<^verbatim>\<open>Number(x)\<close> of a log field: \<open>None\<close> is \<^verbatim>\<open>NaN\<close> (the field was \<^verbatim>\<open>undefined\<close>).\<close>

definition toNumber :: "nat option \<Rightarrow> nat option" where
  "toNumber x = x"

record order_params =
  op_taker :: "address option"
  op_sellToken :: address
  op_sellAmount :: int
  op_buyToken :: address
  op_buyAmount :: int

record creation_info =
  cr_timestamp :: "nat option"
  cr_blockNumber :: nat
  cr_fee :: "nat option"

record create_result =
  cr_orderId :: "nat option"
  cr_txHash :: string
  cr_maker :: "address option"
  cr_creation :: creation_info

definition createOrder :: "world \<Rightarrow> order_params \<Rightarrow> create_result outcome" where
  "createOrder w params =
     (case signer w of
        None \<Rightarrow> throw ''No signer connected''
      | Some signerAddress \<Rightarrow>
          let taker = (case op_taker params of None \<Rightarrow> ZeroAddress | Some t \<Rightarrow> t);
              sellToken = op_sellToken params;
              sellAmount = op_sellAmount params;
              buyToken = op_buyToken params;
              buyAmount = op_buyAmount params
          in rethrow ''Failed to create order: ''
            (andThen (await Call_orderCreationFee (contract_orderCreationFee w)) (\<lambda>fee.
               let minFee = (fee * 90) div 100;
                   maxFee = (fee * 150) div 100
               in if sellToken = ZeroAddress then throw ''Invalid sell token''
               else if buyToken = ZeroAddress then throw ''Invalid buy token''
               else if sellToken = buyToken then throw ''Cannot swap same token''
               else if sellAmount \<le> 0 then throw ''Invalid sell amount''
               else if buyAmount \<le> 0 then throw ''Invalid buy amount''
               else
             andThen (await (Call_approve sellToken (target w) sellAmount)
                        (token_approve w sellToken (target w) sellAmount)) (\<lambda>approveTx.
             andThen (await Call_wait approveTx) (\<lambda>_.
             andThen (await (Call_createOrder taker sellToken sellAmount buyToken buyAmount fee)
                        (contract_createOrder w taker sellToken sellAmount buyToken buyAmount fee))
               (\<lambda>tx.
             andThen (await Call_wait tx) (\<lambda>receipt.
               case findLog ''OrderCreated'' receipt of
                 None \<Rightarrow> throw ''OrderCreated event not found''
               | Some event \<Rightarrow>
                   resolve
                     \<lparr>cr_orderId = a_orderId (args event),
                      cr_txHash = hash receipt,
                      cr_maker = a_maker (args event),
                      cr_creation =
                        \<lparr>cr_timestamp = toNumber (a_timestamp (args event)),
                         cr_blockNumber = blockNumber receipt,
                         cr_fee = a_orderCreationFee (args event)\<rparr>\<rparr>)))))))"

record fill_params =
  fp_orderId :: nat
  fp_buyToken :: address
  fp_buyAmount :: int

record fill_info =
  fi_timestamp :: "nat option"
  fi_blockNumber :: nat

record fill_result =
  fr_orderId :: nat
  fr_txHash :: string
  fr_taker :: "address option"
  fr_fill :: fill_info

definition fillOrder :: "world \<Rightarrow> fill_params \<Rightarrow> fill_result outcome" where
  "fillOrder w params =
     (case signer w of
        None \<Rightarrow> throw ''No signer connected''
      | Some signerAddress \<Rightarrow>
          let orderId = fp_orderId params;
              buyToken = fp_buyToken params;
              buyAmount = fp_buyAmount params
          in rethrow ''Failed to fill order: ''
            (andThen (await (Call_orders orderId) (contract_orders w orderId)) (\<lambda>found.
               case found of
                 None \<Rightarrow> throw ''Order does not exist''
               | Some order \<Rightarrow>
               if \<not> os_isActive order then throw ''Order is not active''
               else
             let currentTime = Number (Date_now w div 1000) in
             andThen (eval (js_add (os_timestamp order) (Number (7 * 24 * 60 * 60)))) (\<lambda>expiry.
               if js_gt currentTime expiry then throw ''Order has expired''
               else if os_taker order \<noteq> ZeroAddress \<and> os_taker order \<noteq> signerAddress
                 then throw ''Not authorized to fill this order''
               else
             andThen (await (Call_balanceOf buyToken signerAddress)
                        (token_balanceOf w buyToken signerAddress)) (\<lambda>balance.
               if int balance < buyAmount then throw ''Insufficient balance for buy token''
               else
             andThen (await (Call_approve buyToken (target w) buyAmount)
                        (token_approve w buyToken (target w) buyAmount)) (\<lambda>approveTx.
             andThen (await Call_wait approveTx) (\<lambda>_.
             andThen (await (Call_fillOrder orderId) (contract_fillOrder w orderId)) (\<lambda>tx.
             andThen (await Call_wait tx) (\<lambda>receipt.
               case findLog ''OrderFilled'' receipt of
                 None \<Rightarrow> throw ''OrderFilled event not found''
               | Some event \<Rightarrow>
                   resolve
                     \<lparr>fr_orderId = orderId,
                      fr_txHash = hash receipt,
                      fr_taker = a_taker (args event),
                      fr_fill =
                        \<lparr>fi_timestamp = toNumber (a_timestamp (args event)),
                         fi_blockNumber = blockNumber receipt\<rparr>\<rparr>)))))))))"

record cancel_info =
  ci_timestamp :: "nat option"
  ci_blockNumber :: nat

record cancel_result =
  cn_orderId :: nat
  cn_txHash :: string
  cn_cancellation :: cancel_info

definition cancelOrder :: "world \<Rightarrow> nat \<Rightarrow> cancel_result outcome" where
  "cancelOrder w =
     (\<lambda>orderId. case signer w of
        None \<Rightarrow> throw ''No signer connected''
      | Some signerAddress \<Rightarrow>
          rethrow ''Failed to cancel order: ''
            (andThen (await (Call_orders orderId) (contract_orders w orderId)) (\<lambda>found.
               case found of
                 None \<Rightarrow> throw ''Order does not exist''
               | Some order \<Rightarrow>
               if os_maker order \<noteq> signerAddress then throw ''Only maker can cancel order''
               else
             let currentTime = BigInt (Date_now w div 1000) in
             andThen (eval (js_add (os_timestamp order) (BigInt (14 * 24 * 60 * 60))))
               (\<lambda>gracePeriodEnd.
               if js_gt currentTime gracePeriodEnd then throw ''Grace period has expired''
               else
             andThen (await (Call_cancelOrder orderId) (contract_cancelOrder w orderId)) (\<lambda>tx.
             andThen (await Call_wait tx) (\<lambda>receipt.
               case findLog ''OrderCanceled'' receipt of
                 None \<Rightarrow> throw ''OrderCanceled event not found''
               | Some event \<Rightarrow>
                   resolve
                     \<lparr>cn_orderId = orderId,
                      cn_txHash = hash receipt,
                      cn_cancellation =
                        \<lparr>ci_timestamp = toNumber (a_timestamp (args event)),
                         ci_blockNumber = blockNumber receipt\<rparr>\<rparr>))))))"

record cleaned_order =
  co_orderId :: "nat option"
  co_maker :: "address option"
  co_timestamp :: "nat option"

record cleanup_error =
  er_orderId :: "nat option"
  er_reason :: "string option"
  er_timestamp :: "nat option"

record retry =
  rt_oldOrderId :: "nat option"
  rt_newOrderId :: "nat option"
  rt_maker :: "address option"
  rt_tries :: "nat option"
  rt_timestamp :: "nat option"

record fee_distribution =
  fd_recipient :: "address option"
  fd_amount :: "nat option"
  fd_timestamp :: "nat option"

record cleanup_result =
  txHash :: string
  cleanedOrders :: "cleaned_order list"
  errors :: "cleanup_error list"
  retries :: "retry list"
  feesDistributed :: "fee_distribution list"

definition cleanupExpiredOrders :: "world \<Rightarrow> cleanup_result outcome" where
  "cleanupExpiredOrders w =
     (case signer w of
        None \<Rightarrow> throw ''No signer connected''
      | Some signerAddress \<Rightarrow>
          rethrow ''Failed to cleanup expired orders: ''
            (andThen (await Call_cleanupExpiredOrders (contract_cleanupExpiredOrders w)) (\<lambda>tx.
             andThen (await Call_wait tx) (\<lambda>receipt.
               let cleanedEvents = filterLogs ''OrderCleanedUp'' receipt;
                   cleanupErrorEvents = filterLogs ''CleanupError'' receipt;
                   retryEvents = filterLogs ''RetryOrder'' receipt;
                   feesDistributedEvents = filterLogs ''CleanupFeesDistributed'' receipt
               in resolve
                 \<lparr>txHash = hash receipt,
                  cleanedOrders =
                    map (\<lambda>e. \<lparr>co_orderId = a_orderId (args e),
                              co_maker = a_maker (args e),
                              co_timestamp = toNumber (a_timestamp (args e))\<rparr>)
                      cleanedEvents,
                  errors =
                    map (\<lambda>e. \<lparr>er_orderId = a_orderId (args e),
                              er_reason = a_reason (args e),
                              er_timestamp = toNumber (a_timestamp (args e))\<rparr>)
                      cleanupErrorEvents,
                  retries =
                    map (\<lambda>e. \<lparr>rt_oldOrderId = a_oldOrderId (args e),
                              rt_newOrderId = a_newOrderId (args e),
                              rt_maker = a_maker (args e),
                              rt_tries = toNumber (a_tries (args e)),
                              rt_timestamp = toNumber (a_timestamp (args e))\<rparr>)
                      retryEvents,
                  feesDistributed =
                    map (\<lambda>e. \<lparr>fd_recipient = a_recipient (args e),
                              fd_amount = a_amount (args e),
                              fd_timestamp = toNumber (a_timestamp (args e))\<rparr>)
                      feesDistributedEvents\<rparr>))))"

section \<open>Concrete ledgers and inputs\<close>

text \<open>A ledger that cannot be reached: every remote call is rejected, and no signer is
  connected. The examples below override what they need.\<close>

definition unreachable :: world where
  "unreachable =
     \<lparr>signer = None, target = ''0xC'', Date_now = 0,
      contract_ORDER_EXPIRY = Inl ''network error'',
      contract_GRACE_PERIOD = Inl ''network error'',
      contract_orderCreationFee = Inl ''network error'',
      contract_orders = (\<lambda>_. Inl ''network error''),
      token_balanceOf = (\<lambda>_ _. Inl ''network error''),
      token_approve = (\<lambda>_ _ _. Inl ''network error''),
      contract_createOrder = (\<lambda>_ _ _ _ _ _. Inl ''network error''),
      contract_fillOrder = (\<lambda>_. Inl ''network error''),
      contract_cancelOrder = (\<lambda>_. Inl ''network error''),
      contract_cleanupExpiredOrders = Inl ''network error'',
      query_OrderCreated = (\<lambda>_ _. Inl ''network error''),
      query_OrderFilled = (\<lambda>_ _. Inl ''network error''),
      query_OrderCanceled = (\<lambda>_ _. Inl ''network error''),
      query_OrderCleanedUp = (\<lambda>_ _. Inl ''network error''),
      query_RetryOrder = (\<lambda>_ _. Inl ''network error'')\<rparr>"

text \<open>The ledger \<open>w\<close> with its five event queries resolving, over every block range, with
  the given streams.\<close>

definition withStreams ::
  "world \<Rightarrow> created_event list \<Rightarrow> id_event list \<Rightarrow> id_event list \<Rightarrow> id_event list \<Rightarrow>
   retry_event list \<Rightarrow> world" where
  "withStreams w created filled canceled cleaned retried =
     w\<lparr>query_OrderCreated := (\<lambda>_ _. Inr created),
       query_OrderFilled := (\<lambda>_ _. Inr filled),
       query_OrderCanceled := (\<lambda>_ _. Inr canceled),
       query_OrderCleanedUp := (\<lambda>_ _. Inr cleaned),
       query_RetryOrder := (\<lambda>_ _. Inr retried)\<rparr>"

text \<open>\<^verbatim>\<open>getActiveOrders()\<close> called with \<^verbatim>\<open>{}\<close>.\<close>

definition noParams :: get_params where
  "noParams =
     \<lparr>gp_fromBlock = None, gp_toBlock = None, gp_makerAddress = None, gp_sellToken = None,
      gp_buyToken = None\<rparr>"

text \<open>The condition of the \<^verbatim>\<open>.filter\<close> callback of \<^verbatim>\<open>getActiveOrders\<close>, read on the
  identifiers themselves instead of their decimal strings (lemma \<open>orders_activeOrdersOf\<close>
  shows that it is the callback's condition).\<close>

definition survives ::
  "int \<Rightarrow> id_event list \<Rightarrow> id_event list \<Rightarrow> id_event list \<Rightarrow> retry_event list \<Rightarrow>
   created_event \<Rightarrow> bool" where
  "survives dateNow filled canceled cleaned retried event =
     (ce_orderId event \<notin> ie_orderId ` set filled \<and>
      ce_orderId event \<notin> ie_orderId ` set canceled \<and>
      ce_orderId event \<notin> ie_orderId ` set cleaned \<and>
      ce_orderId event \<notin> re_oldOrderId ` set retried \<and>
      dateNow div 1000 \<le> int (ce_timestamp event) + 7 * 24 * 60 * 60)"

text \<open>Whether a value passes an optional filter of \<^verbatim>\<open>getActiveOrders\<close>: an absent or empty
  filter lets everything pass, a given one compares the lower-cased strings (lemma
  \<open>in_set_filterBy\<close> shows that \<open>filterBy\<close> keeps exactly the orders that pass).\<close>

definition passesFilter :: "string option \<Rightarrow> string \<Rightarrow> bool" where
  "passesFilter x v =
     (case x of None \<Rightarrow> True | Some f \<Rightarrow> f = [] \<or> toLowerCase v = toLowerCase f)"

text \<open>Order 42: maker \<open>0xM\<close> sells 100 of token \<open>0xA\<close> for 50 of token \<open>0xB\<close>, created at
  1700000000. Order 43 is created a day later by another maker and then filled.\<close>

definition order42 :: created_event where
  "order42 =
     \<lparr>ce_orderId = 42, ce_maker = ''0xM'', ce_taker = ZeroAddress, ce_sellToken = ''0xA'',
      ce_sellAmount = 100, ce_buyToken = ''0xB'', ce_buyAmount = 50,
      ce_timestamp = 1700000000, ce_orderCreationFee = 1\<rparr>"

definition order43 :: created_event where
  "order43 =
     \<lparr>ce_orderId = 43, ce_maker = ''0xN'', ce_taker = ZeroAddress, ce_sellToken = ''0xB'',
      ce_sellAmount = 7, ce_buyToken = ''0xA'', ce_buyAmount = 9,
      ce_timestamp = 1700086400, ce_orderCreationFee = 1\<rparr>"

definition filled43 :: id_event where
  "filled43 = \<lparr>ie_orderId = 43, ie_timestamp = 1700090000\<rparr>"

definition event42 :: id_event where
  "event42 = \<lparr>ie_orderId = 42, ie_timestamp = 1700100000\<rparr>"

definition retried42 :: retry_event where
  "retried42 =
     \<lparr>re_oldOrderId = 42, re_newOrderId = 44, re_maker = ''0xM'', re_tries = 1,
      re_timestamp = 1700100000\<rparr>"

text \<open>Two days after order 42 was created.\<close>

definition twoDaysLater :: world where
  "twoDaysLater = unreachable\<lparr>Date_now := 1700172800000\<rparr>"

text \<open>A ledger that reports a seven-day lifetime and no grace period, read one second after
  the lifetime of an order created at 1700000000 has ended.\<close>

definition noGrace :: world where
  "noGrace =
     unreachable\<lparr>contract_ORDER_EXPIRY := Inr 604800, contract_GRACE_PERIOD := Inr 0,
       Date_now := 1700604801000\<rparr>"

text \<open>The record \<^verbatim>\<open>contract.orders(42)\<close> resolves with, as ethers v6 decodes it: the
  \<^verbatim>\<open>uint256\<close> timestamp is a \<^verbatim>\<open>bigint\<close>.\<close>

definition stored42 :: order_struct where
  "stored42 =
     \<lparr>os_maker = ''0xM'', os_taker = ''0xT'', os_timestamp = BigInt 1700000000,
      os_isActive = True\<rparr>"

text \<open>Signer \<open>0xM\<close>, the maker of order 42, two days after its creation.\<close>

definition makerSession :: world where
  "makerSession =
     unreachable\<lparr>signer := Some ''0xM'', Date_now := 1700172800000,
       contract_orders := (\<lambda>i. if i = 42 then Inr (Some stored42) else Inr None),
       contract_orderCreationFee := Inr 1000\<rparr>"

text \<open>The maker again, one second after fourteen days have passed since the creation.\<close>

definition lateSession :: world where
  "lateSession = makerSession\<lparr>Date_now := 1701209601000\<rparr>"

text \<open>The maker on a ledger that reports a seven-day lifetime and no grace period, one
  second after the lifetime of order 42 has ended.\<close>

definition shortGraceSession :: world where
  "shortGraceSession =
     makerSession\<lparr>contract_ORDER_EXPIRY := Inr 604800, contract_GRACE_PERIOD := Inr 0,
       Date_now := 1700604801000\<rparr>"

text \<open>The maker on a ledger that reports a seven-day lifetime and a thirty-day grace
  period, one second after fourteen days have passed since the creation of order 42.\<close>

definition longGraceSession :: world where
  "longGraceSession =
     makerSession\<lparr>contract_ORDER_EXPIRY := Inr 604800, contract_GRACE_PERIOD := Inr 2592000,
       Date_now := 1701209601000\<rparr>"

text \<open>Signer \<open>0xS\<close>, who is not the designated taker \<open>0xT\<close> of order 42.\<close>

definition strangerSession :: world where
  "strangerSession = makerSession\<lparr>signer := Some ''0xS''\<rparr>"

text \<open>Signer \<open>0xt\<close>: the designated taker's address in another letter case.\<close>

definition lowerCaseSession :: world where
  "lowerCaseSession = makerSession\<lparr>signer := Some ''0xt''\<rparr>"

definition fill42 :: fill_params where
  "fill42 = \<lparr>fp_orderId = 42, fp_buyToken = ''0xB'', fp_buyAmount = 50\<rparr>"

text \<open>A creation request that sells and buys the same token.\<close>

definition sameToken :: order_params where
  "sameToken =
     \<lparr>op_taker = None, op_sellToken = ''0xA'', op_sellAmount = 100, op_buyToken = ''0xA'',
      op_buyAmount = 50\<rparr>"

text \<open>A cleanup confirmation with two \<^verbatim>\<open>OrderCleanedUp\<close> logs and one \<^verbatim>\<open>CleanupError\<close> log.\<close>

definition noArgs :: log_args where
  "noArgs =
     \<lparr>a_orderId = None, a_oldOrderId = None, a_newOrderId = None, a_maker = None,
      a_taker = None, a_recipient = None, a_amount = None, a_reason = None, a_tries = None,
      a_timestamp = None, a_orderCreationFee = None\<rparr>"

definition cleanupReceipt :: receipt where
  "cleanupReceipt =
     \<lparr>hash = ''0xH'', blockNumber = 9,
      logs =
        [\<lparr>fragment_name = Some ''OrderCleanedUp'',
          args = noArgs\<lparr>a_orderId := Some 1, a_maker := Some ''0xM'', a_timestamp := Some 5\<rparr>\<rparr>,
         \<lparr>fragment_name = Some ''CleanupError'',
          args = noArgs\<lparr>a_orderId := Some 2, a_reason := Some ''transfer failed'',
                   a_timestamp := Some 5\<rparr>\<rparr>,
         \<lparr>fragment_name = Some ''OrderCleanedUp'',
          args = noArgs\<lparr>a_orderId := Some 3, a_maker := Some ''0xN'', a_timestamp := Some 5\<rparr>\<rparr>]\<rparr>"

definition cleanupSession :: world where
  "cleanupSession =
     unreachable\<lparr>signer := Some ''0xS'', contract_cleanupExpiredOrders := Inr (Inr cleanupReceipt)\<rparr>"

section \<open>Facts about the JavaScript values\<close>

declare toString.simps [simp del]

lemma digit_char_inj:
  assumes "a < 10" and "b < 10" and "digit_char a = digit_char b"
  shows "a = b"
proof -
  have "distinct ''0123456789''" and "length ''0123456789'' = 10"
    by simp_all
  with assms show ?thesis
    unfolding digit_char_def by (metis nth_eq_iff_index_eq)
qed

lemma toString_not_Nil: "toString n \<noteq> []"
  by (subst toString.simps) simp

lemma toString_small: "n < 10 \<Longrightarrow> toString n = [digit_char n]"
  by (subst toString.simps) simp

lemma toString_large:
  "\<not> n < 10 \<Longrightarrow> toString n = toString (n div 10) @ [digit_char (n mod 10)]"
  by (subst toString.simps) simp

text \<open>Distinct identifiers have distinct decimal strings, so membership in a
  \<^verbatim>\<open>Set<string>\<close> of identifiers is membership of the identifier.\<close>

lemma toString_inj: "toString n = toString m \<Longrightarrow> n = m"
proof (induction n arbitrary: m rule: toString.induct)
  case (1 n)
  show ?case
  proof (cases "n < 10")
    case n: True
    show ?thesis
    proof (cases "m < 10")
      case True
      with n "1.prems" show ?thesis
        by (simp add: toString_small digit_char_inj)
    next
      case False
      with n "1.prems" show ?thesis
        using toString_not_Nil [of "m div 10"] by (auto simp: toString_small toString_large)
    qed
  next
    case n: False
    show ?thesis
    proof (cases "m < 10")
      case True
      with n "1.prems" show ?thesis
        using toString_not_Nil [of "n div 10"] by (auto simp: toString_small toString_large)
    next
      case m: False
      with n "1.prems" have q: "toString (n div 10) = toString (m div 10)"
        and r: "digit_char (n mod 10) = digit_char (m mod 10)"
        by (simp_all add: toString_large)
      from "1.IH" [OF n q] have "n div 10 = m div 10" .
      moreover from r have "n mod 10 = m mod 10"
        by (simp add: digit_char_inj)
      ultimately show ?thesis
        by (metis div_mult_mod_eq)
    qed
  qed
qed

lemma toString_eq_iff [simp]: "toString n = toString m \<longleftrightarrow> n = m"
  using toString_inj by blast

lemma toString_mem_iff [simp]:
  "toString n \<in> (\<lambda>e. toString (f e)) ` A \<longleftrightarrow> n \<in> f ` A"
  by auto

section \<open>Facts about the active-order projection\<close>

lemma filterBy_None [simp]: "filterBy None field xs = xs"
  by (simp add: filterBy_def)

lemma filterBy_filter: "filterBy x field (filter Q xs) = filter Q (filterBy x field xs)"
  by (auto simp: filterBy_def conj_commute split: option.splits)

lemma set_filterBy_subset: "set (filterBy x field xs) \<subseteq> set xs"
  by (auto simp: filterBy_def split: option.splits)

lemma in_set_filterBy:
  "a \<in> set (filterBy x field xs) \<longleftrightarrow> a \<in> set xs \<and> passesFilter x (field a)"
  by (auto simp: filterBy_def passesFilter_def split: option.splits)

lemma in_filterBy3:
  "a \<in> set (filterBy x f (filterBy y g (filterBy z h xs))) \<Longrightarrow> a \<in> set xs"
  by (meson set_filterBy_subset subsetD)

lemma getActiveOrders_withStreams:
  "getActiveOrders (withStreams w cs fs cn cl rt) p =
     Inr (activeOrdersOf (Date_now w) p cs fs cn cl rt)"
  by (simp add: getActiveOrders_def withStreams_def)

lemma orders_activeOrdersOf:
  "orders (activeOrdersOf now p cs fs cn cl rt) =
     filterBy (gp_buyToken p) (\<lambda>order. token (buy order))
       (filterBy (gp_sellToken p) (\<lambda>order. token (sell order))
         (filterBy (gp_makerAddress p) maker
           (map toOrder (filter (survives now fs cn cl rt) cs))))"
proof -
  have "(\<lambda>event.
           toString (ce_orderId event) \<notin> set (map (\<lambda>e. toString (ie_orderId e)) fs) \<and>
           toString (ce_orderId event) \<notin> set (map (\<lambda>e. toString (ie_orderId e)) cn) \<and>
           toString (ce_orderId event) \<notin> set (map (\<lambda>e. toString (ie_orderId e)) cl) \<and>
           toString (ce_orderId event) \<notin> set (map (\<lambda>e. toString (re_oldOrderId e)) rt) \<and>
           \<not> now div 1000 > int (ce_timestamp event) + 7 * 24 * 60 * 60) =
        survives now fs cn cl rt"
    by (rule ext) (simp add: survives_def not_less)
  then show ?thesis
    by (simp add: activeOrdersOf_def Let_def)
qed

lemma toOrder_survives:
  "toOrder e' = toOrder e \<Longrightarrow> survives now fs cn cl rt e' = survives now fs cn cl rt e"
  by (auto simp: toOrder_def survives_def)

lemma filter_orderId_toOrder:
  "filter (\<lambda>a. orderId a \<noteq> x) (map toOrder es) =
     map toOrder (filter (\<lambda>e. ce_orderId e \<noteq> x) es)"
  by (induction es) (simp_all add: toOrder_def)

lemma orders_remove:
  assumes "\<And>e. keep e \<longleftrightarrow> survives now fs cn cl rt e \<and> ce_orderId e \<noteq> x"
  shows "filterBy b fb (filterBy s fs' (filterBy m fm (map toOrder (filter keep cs)))) =
         filter (\<lambda>a. orderId a \<noteq> x)
           (filterBy b fb (filterBy s fs' (filterBy m fm
             (map toOrder (filter (survives now fs cn cl rt) cs)))))"
proof -
  from assms have "keep = (\<lambda>e. survives now fs cn cl rt e \<and> ce_orderId e \<noteq> x)"
    by (intro ext) simp
  then have "filter keep cs =
      filter (\<lambda>e. ce_orderId e \<noteq> x) (filter (survives now fs cn cl rt) cs)"
    by (simp add: conj_commute)
  then show ?thesis
    by (simp add: filterBy_filter [symmetric] filter_orderId_toOrder)
qed

lemma active_not_terminal:
  assumes "a \<in> set (orders (activeOrdersOf now p cs fs cn cl rt))"
  shows "orderId a \<notin>
    ie_orderId ` set fs \<union> ie_orderId ` set cn \<union> ie_orderId ` set cl \<union> re_oldOrderId ` set rt"
proof -
  from assms have "a \<in> set (map toOrder (filter (survives now fs cn cl rt) cs))"
    unfolding orders_activeOrdersOf by (rule in_filterBy3)
  then obtain e where "survives now fs cn cl rt e" and "a = toOrder e"
    by auto
  then show ?thesis
    by (simp add: survives_def toOrder_def)
qed

lemma isActive_toOrder: "isActive (toOrder e)"
  by (simp add: toOrder_def)

section \<open>Facts about the submission steps\<close>

lemma fst_rethrow [simp]: "fst (rethrow prefix body) = fst body"
  by (simp add: rethrow_def split: prod.splits sum.splits)

lemma rethrow_pair:
  "rethrow prefix (cs, r) = (cs, case r of Inl m \<Rightarrow> Inl (prefix @ m) | Inr v \<Rightarrow> Inr v)"
  by (cases r) (simp_all add: rethrow_def)

lemma andThen_await_Inl [simp]: "andThen (await c (Inl m)) rest = ([c], Inl m)"
  by (simp add: andThen_def await_def)

lemma andThen_await_Inr [simp]:
  "andThen (await c (Inr v)) rest = (c # fst (rest v), snd (rest v))"
  by (simp add: andThen_def await_def split: prod.splits)

lemma andThen_eval_Inl [simp]: "andThen (eval (Inl m)) rest = ([], Inl m)"
  by (simp add: andThen_def eval_def)

lemma andThen_eval_Inr [simp]: "andThen (eval (Inr v)) rest = rest v"
  by (simp add: andThen_def eval_def split: prod.splits)

lemma fst_andThen_await:
  "fst (andThen (await c response) rest) =
     c # (case response of Inl m \<Rightarrow> [] | Inr v \<Rightarrow> fst (rest v))"
  by (cases response) simp_all

lemma fst_throw [simp]: "fst (throw m) = []"
  by (simp add: throw_def)

lemma snd_throw [simp]: "snd (throw m) = Inl m"
  by (simp add: throw_def)

lemma length_filter_count_list:
  "length (filter (\<lambda>x. f x = y) xs) = count_list (map f xs) y"
  by (induction xs) auto

lemma length_filterLogs:
  "length (filterLogs name r) = count_list (map fragment_name (logs r)) (Some name)"
  by (simp add: filterLogs_def length_filter_count_list)

text \<open>What \<^verbatim>\<open>fillOrder\<close> does with an active order, by the runtime type of the stored
  timestamp: a \<^verbatim>\<open>bigint\<close> makes line 124 throw; with a \<^verbatim>\<open>number\<close> an unexpired order
  reaches the taker check.\<close>

lemma fillOrder_BigInt:
  assumes "signer w = Some s" and "contract_orders w (fp_orderId p) = Inr (Some ord)"
    and "os_isActive ord" and "os_timestamp ord = BigInt t"
  shows "fillOrder w p =
    ([Call_orders (fp_orderId p)], Inl (''Failed to fill order: '' @ MixError))"
  using assms by (simp add: fillOrder_def Let_def rethrow_pair)

lemma fillOrder_Number_not_authorized:
  assumes "signer w = Some s" and "contract_orders w (fp_orderId p) = Inr (Some ord)"
    and "os_isActive ord" and "os_timestamp ord = Number t"
    and "\<not> Date_now w div 1000 > t + 7 * 24 * 60 * 60"
    and "os_taker ord \<noteq> ZeroAddress" and "os_taker ord \<noteq> s"
  shows "fillOrder w p =
    ([Call_orders (fp_orderId p)], Inl ''Failed to fill order: Not authorized to fill this order'')"
  using assms by (simp add: fillOrder_def Let_def js_gt_def throw_def rethrow_pair)

lemma cancelOrder_not_maker:
  assumes "signer w = Some s" and "contract_orders w i = Inr (Some ord)"
    and "os_maker ord \<noteq> s"
  shows "cancelOrder w i =
    ([Call_orders i], Inl ''Failed to cancel order: Only maker can cancel order'')"
  using assms by (simp add: cancelOrder_def Let_def throw_def rethrow_pair)

section \<open>Expiry policy: the claims\<close>

text \<open>C4: for every creation timestamp \<open>t\<close>, \<^verbatim>\<open>isOrderExpired\<close> returns whether the clock
  (in seconds) is greater than \<open>t\<close> plus the order lifetime the policy resolves; it is false
  when the clock reads \<open>t\<close>, false at \<open>t + lifetime\<close> and true at \<open>t + lifetime + 1\<close>.\<close>

theorem isOrderExpired_spec:
  "(isOrderExpired w t \<longleftrightarrow>
      now_seconds w > real_of_int t + real (orderExpiry (getOrderExpiryInfo w))) \<and>
   \<not> isOrderExpired (w\<lparr>Date_now := 1000 * t\<rparr>) t \<and>
   \<not> isOrderExpired
       (w\<lparr>Date_now := 1000 * (t + int (orderExpiry (getOrderExpiryInfo w)))\<rparr>) t \<and>
   isOrderExpired
       (w\<lparr>Date_now := 1000 * (t + int (orderExpiry (getOrderExpiryInfo w)) + 1)\<rparr>) t"
  by (simp add: isOrderExpired_def Let_def now_seconds_def getOrderExpiryInfo_def)

text \<open>C5, as amended: for every creation timestamp \<open>t\<close>, \<^verbatim>\<open>isInGracePeriod\<close> returns true
  exactly when the clock is strictly greater than \<open>t + lifetime\<close> and at most
  \<open>t + lifetime + grace\<close>; it is false at \<open>t + lifetime\<close> and at \<open>t + lifetime + grace + 1\<close>,
  and, when the grace period is at least one second, true at \<open>t + lifetime + 1\<close> and at
  \<open>t + lifetime + grace\<close>.\<close>

theorem isInGracePeriod_spec:
  "(isInGracePeriod w t \<longleftrightarrow>
      now_seconds w > real_of_int t + real (orderExpiry (getOrderExpiryInfo w)) \<and>
      now_seconds w \<le> real_of_int t + real (orderExpiry (getOrderExpiryInfo w)) +
        real (gracePeriod (getOrderExpiryInfo w))) \<and>
   \<not> isInGracePeriod
       (w\<lparr>Date_now := 1000 * (t + int (orderExpiry (getOrderExpiryInfo w)))\<rparr>) t \<and>
   \<not> isInGracePeriod
       (w\<lparr>Date_now := 1000 * (t + int (orderExpiry (getOrderExpiryInfo w)) +
          int (gracePeriod (getOrderExpiryInfo w)) + 1)\<rparr>) t \<and>
   (1 \<le> gracePeriod (getOrderExpiryInfo w) \<longrightarrow>
      isInGracePeriod
        (w\<lparr>Date_now := 1000 * (t + int (orderExpiry (getOrderExpiryInfo w)) + 1)\<rparr>) t \<and>
      isInGracePeriod
        (w\<lparr>Date_now := 1000 * (t + int (orderExpiry (getOrderExpiryInfo w)) +
           int (gracePeriod (getOrderExpiryInfo w)))\<rparr>) t)"
  by (simp add: isInGracePeriod_def Let_def now_seconds_def getOrderExpiryInfo_def)

text \<open>With the defaults (seven days each), for an order created at 1700000000.\<close>

theorem isInGracePeriod_spec_witness:
  "1 \<le> gracePeriod (getOrderExpiryInfo unreachable) \<and>
   \<not> isInGracePeriod (unreachable\<lparr>Date_now := 1000 * (1700000000 + 604800)\<rparr>) 1700000000 \<and>
   isInGracePeriod (unreachable\<lparr>Date_now := 1000 * (1700000000 + 604800 + 1)\<rparr>) 1700000000 \<and>
   isInGracePeriod (unreachable\<lparr>Date_now := 1000 * (1700000000 + 604800 + 604800)\<rparr>) 1700000000 \<and>
   \<not> isInGracePeriod
       (unreachable\<lparr>Date_now := 1000 * (1700000000 + 604800 + 604800 + 1)\<rparr>) 1700000000"
  using isInGracePeriod_spec [of unreachable 1700000000]
  by (simp add: getOrderExpiryInfo_def unreachable_def)

text \<open>C5 as stated fails when the ledger reports a grace period of zero: one second after
  the lifetime has ended the order is not in its grace period.\<close>

theorem isInGracePeriod_zero_grace:
  "gracePeriod (getOrderExpiryInfo noGrace) = 0 \<and>
   Date_now noGrace = 1000 * (1700000000 + int (orderExpiry (getOrderExpiryInfo noGrace)) + 1) \<and>
   \<not> isInGracePeriod noGrace 1700000000"
  by (simp add: isInGracePeriod_def Let_def now_seconds_def getOrderExpiryInfo_def noGrace_def
      unreachable_def)

section \<open>The active-order projection: the claims\<close>

text \<open>C1, as amended: over streams that resolve, for every record \<open>e\<close> of the creation
  stream the order built from \<open>e\<close> is in the result of \<^verbatim>\<open>getActiveOrders\<close> if and only if the
  identifier of \<open>e\<close> is absent from the identifiers of the fill, cancellation and cleanup
  streams and from the old identifiers of the retry stream, the clock (in whole seconds) is
  at most the creation timestamp plus the seven-day order lifetime, and the order passes
  each filter that is given (maker, sell token, buy token, compared without regard to
  letter case). Called without these filters, the result holds the order if and only if
  the first five conditions hold.\<close>

theorem getActiveOrders_active_iff:
  "(\<exists>r. getActiveOrders (withStreams w cs fs cn cl rt) p = Inr r \<and>
       (\<forall>e\<in>set cs.
          toOrder e \<in> set (orders r) \<longleftrightarrow>
            ce_orderId e \<notin> ie_orderId ` set fs \<and>
            ce_orderId e \<notin> ie_orderId ` set cn \<and>
            ce_orderId e \<notin> ie_orderId ` set cl \<and>
            ce_orderId e \<notin> re_oldOrderId ` set rt \<and>
            Date_now w div 1000 \<le> int (ce_timestamp e) + 7 * 24 * 60 * 60 \<and>
            passesFilter (gp_makerAddress p) (ce_maker e) \<and>
            passesFilter (gp_sellToken p) (ce_sellToken e) \<and>
            passesFilter (gp_buyToken p) (ce_buyToken e))) \<and>
   (\<exists>r. getActiveOrders (withStreams w cs fs cn cl rt)
          (p\<lparr>gp_makerAddress := None, gp_sellToken := None, gp_buyToken := None\<rparr>) = Inr r \<and>
       (\<forall>e\<in>set cs.
          toOrder e \<in> set (orders r) \<longleftrightarrow>
            ce_orderId e \<notin> ie_orderId ` set fs \<and>
            ce_orderId e \<notin> ie_orderId ` set cn \<and>
            ce_orderId e \<notin> ie_orderId ` set cl \<and>
            ce_orderId e \<notin> re_oldOrderId ` set rt \<and>
            Date_now w div 1000 \<le> int (ce_timestamp e) + 7 * 24 * 60 * 60))"
proof -
  let ?base = "map toOrder (filter (survives (Date_now w) fs cn cl rt) cs)"
  have base: "toOrder e \<in> set ?base \<longleftrightarrow> survives (Date_now w) fs cn cl rt e"
    if "e \<in> set cs" for e
  proof
    assume "toOrder e \<in> set ?base"
    then obtain e' where "survives (Date_now w) fs cn cl rt e'" and "toOrder e' = toOrder e"
      by auto
    then show "survives (Date_now w) fs cn cl rt e"
      using toOrder_survives by blast
  next
    assume "survives (Date_now w) fs cn cl rt e"
    with that show "toOrder e \<in> set ?base"
      by simp
  qed
  have fields: "maker (toOrder e) = ce_maker e" "token (sell (toOrder e)) = ce_sellToken e"
    "token (buy (toOrder e)) = ce_buyToken e" for e
    by (simp_all add: toOrder_def)
  have key: "toOrder e \<in> set (orders (activeOrdersOf (Date_now w) q cs fs cn cl rt)) \<longleftrightarrow>
      survives (Date_now w) fs cn cl rt e \<and>
      passesFilter (gp_makerAddress q) (ce_maker e) \<and>
      passesFilter (gp_sellToken q) (ce_sellToken e) \<and>
      passesFilter (gp_buyToken q) (ce_buyToken e)"
    if "e \<in> set cs" for e q
    using base [OF that] by (auto simp: orders_activeOrdersOf in_set_filterBy fields)
  have general: "\<exists>r. getActiveOrders (withStreams w cs fs cn cl rt) q = Inr r \<and>
      (\<forall>e\<in>set cs.
         toOrder e \<in> set (orders r) \<longleftrightarrow>
           ce_orderId e \<notin> ie_orderId ` set fs \<and>
           ce_orderId e \<notin> ie_orderId ` set cn \<and>
           ce_orderId e \<notin> ie_orderId ` set cl \<and>
           ce_orderId e \<notin> re_oldOrderId ` set rt \<and>
           Date_now w div 1000 \<le> int (ce_timestamp e) + 7 * 24 * 60 * 60 \<and>
           passesFilter (gp_makerAddress q) (ce_maker e) \<and>
           passesFilter (gp_sellToken q) (ce_sellToken e) \<and>
           passesFilter (gp_buyToken q) (ce_buyToken e))" for q
    unfolding getActiveOrders_withStreams
    by (rule exI [of _ "activeOrdersOf (Date_now w) q cs fs cn cl rt"])
      (simp add: key survives_def)
  from general [of p]
    general [of "p\<lparr>gp_makerAddress := None, gp_sellToken := None, gp_buyToken := None\<rparr>"]
  show ?thesis
    by (simp add: passesFilter_def)
qed

text \<open>Order 42 is two days old and untouched; order 43 has been filled. Asking for maker
  \<open>0xm\<close> keeps order 42, whose maker is \<open>0xM\<close>.\<close>

theorem getActiveOrders_active_iff_witness:
  "(\<exists>r. getActiveOrders (withStreams twoDaysLater [order42, order43] [filled43] [] [] [])
          (noParams\<lparr>gp_makerAddress := Some ''0xm''\<rparr>) = Inr r \<and>
       toOrder order42 \<in> set (orders r) \<and> toOrder order43 \<notin> set (orders r)) \<and>
   (\<exists>r. getActiveOrders (withStreams twoDaysLater [order42, order43] [filled43] [] [] [])
          noParams = Inr r \<and>
       toOrder order42 \<in> set (orders r) \<and> toOrder order43 \<notin> set (orders r))"
  using getActiveOrders_active_iff
    [of twoDaysLater "[order42, order43]" "[filled43]" "[]" "[]" "[]"
        "noParams\<lparr>gp_makerAddress := Some ''0xm''\<rparr>"]
  by (simp add: noParams_def order42_def order43_def filled43_def twoDaysLater_def
      unreachable_def passesFilter_def toLowerCase_def lower_char_def)

text \<open>C1 as stated fails when a filter is given: order 42 meets the five conditions, and
  a call that asks for the orders of maker \<open>0xN\<close> does not return it.\<close>

theorem getActiveOrders_filter_excludes:
  "ce_orderId order42 \<notin> ie_orderId ` set [] \<and>
   ce_orderId order42 \<notin> re_oldOrderId ` set [] \<and>
   Date_now twoDaysLater div 1000 \<le> int (ce_timestamp order42) + 7 * 24 * 60 * 60 \<and>
   getActiveOrders (withStreams twoDaysLater [order42] [] [] [] [])
       (noParams\<lparr>gp_makerAddress := Some ''0xN''\<rparr>) =
     Inr \<lparr>orders = [], pagination = \<lparr>hasMore = False, nextOffset = 0\<rparr>\<rparr>"
  by (simp add: getActiveOrders_def withStreams_def activeOrdersOf_def Let_def filterBy_def
      toOrder_def toLowerCase_def lower_char_def noParams_def order42_def twoDaysLater_def
      unreachable_def)

text \<open>C7: for fixed streams, a fixed clock and any filter, appending a fill, cancellation
  or cleanup record for an identifier, or a retry record whose old identifier it is, to
  the streams leaves \<^verbatim>\<open>getActiveOrders\<close> with exactly the orders it returned before that
  carry another identifier: the record can remove that order and adds none. No order of
  the result has an identifier that occurs in any of the four terminal sets, however many
  of them it occurs in.\<close>

theorem getActiveOrders_monotone:
  "\<exists>r rf rc rl rr.
     getActiveOrders (withStreams w cs fs cn cl rt) p = Inr r \<and>
     getActiveOrders (withStreams w cs (fs @ [f]) cn cl rt) p = Inr rf \<and>
     getActiveOrders (withStreams w cs fs (cn @ [c]) cl rt) p = Inr rc \<and>
     getActiveOrders (withStreams w cs fs cn (cl @ [l]) rt) p = Inr rl \<and>
     getActiveOrders (withStreams w cs fs cn cl (rt @ [y])) p = Inr rr \<and>
     orders rf = filter (\<lambda>a. orderId a \<noteq> ie_orderId f) (orders r) \<and>
     orders rc = filter (\<lambda>a. orderId a \<noteq> ie_orderId c) (orders r) \<and>
     orders rl = filter (\<lambda>a. orderId a \<noteq> ie_orderId l) (orders r) \<and>
     orders rr = filter (\<lambda>a. orderId a \<noteq> re_oldOrderId y) (orders r) \<and>
     (\<forall>a\<in>set (orders r).
        orderId a \<notin> ie_orderId ` set fs \<union> ie_orderId ` set cn \<union> ie_orderId ` set cl \<union>
          re_oldOrderId ` set rt)"
proof -
  let ?n = "Date_now w"
  have f: "orders (activeOrdersOf ?n p cs (fs @ [f]) cn cl rt) =
      filter (\<lambda>a. orderId a \<noteq> ie_orderId f) (orders (activeOrdersOf ?n p cs fs cn cl rt))"
    unfolding orders_activeOrdersOf by (rule orders_remove) (auto simp: survives_def)
  have c: "orders (activeOrdersOf ?n p cs fs (cn @ [c]) cl rt) =
      filter (\<lambda>a. orderId a \<noteq> ie_orderId c) (orders (activeOrdersOf ?n p cs fs cn cl rt))"
    unfolding orders_activeOrdersOf by (rule orders_remove) (auto simp: survives_def)
  have l: "orders (activeOrdersOf ?n p cs fs cn (cl @ [l]) rt) =
      filter (\<lambda>a. orderId a \<noteq> ie_orderId l) (orders (activeOrdersOf ?n p cs fs cn cl rt))"
    unfolding orders_activeOrdersOf by (rule orders_remove) (auto simp: survives_def)
  have y: "orders (activeOrdersOf ?n p cs fs cn cl (rt @ [y])) =
      filter (\<lambda>a. orderId a \<noteq> re_oldOrderId y) (orders (activeOrdersOf ?n p cs fs cn cl rt))"
    unfolding orders_activeOrdersOf by (rule orders_remove) (auto simp: survives_def)
  have "\<forall>a\<in>set (orders (activeOrdersOf ?n p cs fs cn cl rt)).
      orderId a \<notin> ie_orderId ` set fs \<union> ie_orderId ` set cn \<union> ie_orderId ` set cl \<union>
        re_oldOrderId ` set rt"
    using active_not_terminal by blast
  with f c l y show ?thesis
    unfolding getActiveOrders_withStreams by simp
qed

text \<open>Order 42 is active; a fill, a cancellation, a cleanup or a retry of 42 removes it,
  and the filled order 43 is not in the result.\<close>

theorem getActiveOrders_monotone_witness:
  "\<exists>r rf rc rl rr.
     getActiveOrders (withStreams twoDaysLater [order42, order43] [filled43] [] [] [])
       noParams = Inr r \<and>
     getActiveOrders (withStreams twoDaysLater [order42, order43] [filled43, event42] [] [] [])
       noParams = Inr rf \<and>
     getActiveOrders (withStreams twoDaysLater [order42, order43] [filled43] [event42] [] [])
       noParams = Inr rc \<and>
     getActiveOrders (withStreams twoDaysLater [order42, order43] [filled43] [] [event42] [])
       noParams = Inr rl \<and>
     getActiveOrders (withStreams twoDaysLater [order42, order43] [filled43] [] [] [retried42])
       noParams = Inr rr \<and>
     42 \<notin> orderId ` set (orders rf) \<and> 42 \<notin> orderId ` set (orders rc) \<and>
     42 \<notin> orderId ` set (orders rl) \<and> 42 \<notin> orderId ` set (orders rr) \<and>
     43 \<notin> orderId ` set (orders r)"
  using getActiveOrders_monotone
    [of twoDaysLater "[order42, order43]" "[filled43]" "[]" "[]" "[]" noParams
        event42 event42 event42 retried42]
  by (auto simp: event42_def retried42_def filled43_def)

text \<open>C10: every order in the list \<^verbatim>\<open>getActiveOrders\<close> returns has its \<^verbatim>\<open>isActive\<close> flag set,
  whatever the filter and the streams.\<close>

theorem getActiveOrders_isActive:
  "getActiveOrders w p = Inr r \<Longrightarrow> \<forall>a\<in>set (orders r). isActive a"
proof
  fix a
  assume r: "getActiveOrders w p = Inr r" and mem: "a \<in> set (orders r)"
  from r obtain cs fs cn cl rt where "r = activeOrdersOf (Date_now w) p cs fs cn cl rt"
    by (auto simp: getActiveOrders_def Let_def split: sum.splits)
  with mem have "a \<in> set (map toOrder (filter (survives (Date_now w) fs cn cl rt) cs))"
    using in_filterBy3 by (fastforce simp: orders_activeOrdersOf)
  then show "isActive a"
    by (auto simp: isActive_toOrder)
qed

text \<open>The one order returned for the streams above is flagged active.\<close>

theorem getActiveOrders_isActive_witness:
  "getActiveOrders (withStreams twoDaysLater [order42, order43] [filled43] [] [] []) noParams =
     Inr (activeOrdersOf (Date_now twoDaysLater) noParams [order42, order43] [filled43] [] [] []) \<and>
   orders (activeOrdersOf (Date_now twoDaysLater) noParams [order42, order43] [filled43] [] [] [])
     = [toOrder order42] \<and>
   isActive (toOrder order42)"
proof -
  let ?r = "activeOrdersOf (Date_now twoDaysLater) noParams [order42, order43] [filled43] [] [] []"
  have run: "getActiveOrders (withStreams twoDaysLater [order42, order43] [filled43] [] [] [])
      noParams = Inr ?r"
    by (rule getActiveOrders_withStreams)
  have ords: "orders ?r = [toOrder order42]"
    by (simp add: orders_activeOrdersOf survives_def noParams_def order42_def order43_def
        filled43_def twoDaysLater_def unreachable_def)
  from getActiveOrders_isActive [OF run] have "isActive (toOrder order42)"
    by (simp add: ords)
  with run ords show ?thesis
    by simp
qed

section \<open>Submitting transactions: the claims\<close>

text \<open>C2, as amended: when the connected signer is the maker of an existing order (whose
  stored timestamp is the \<^verbatim>\<open>bigint\<close> the binding decodes), \<^verbatim>\<open>cancelOrder\<close> rejects with
  \<open>Grace period has expired\<close>, having only read the order, exactly when the clock (in whole
  seconds) exceeds the creation timestamp plus fourteen days, the client's fixed window
  (the default seven-day lifetime plus the default seven-day grace period), whatever
  lifetime and grace period the ledger reports; otherwise its next call submits the
  cancellation.\<close>

theorem cancelOrder_grace_deadline:
  assumes "signer w = Some s" and "contract_orders w i = Inr (Some ord)"
    and "os_maker ord = s" and "os_timestamp ord = BigInt t"
  shows "(cancelOrder w i =
            ([Call_orders i], Inl ''Failed to cancel order: Grace period has expired'')
          \<longleftrightarrow> Date_now w div 1000 > t + 7 * 24 * 60 * 60 + 7 * 24 * 60 * 60) \<and>
         (\<not> Date_now w div 1000 > t + 7 * 24 * 60 * 60 + 7 * 24 * 60 * 60 \<longrightarrow>
            take 2 (fst (cancelOrder w i)) = [Call_orders i, Call_cancelOrder i])"
  using assms
  by (simp add: cancelOrder_def Let_def js_gt_def rethrow_pair fst_andThen_await)

text \<open>The maker of order 42 cancels after two days (the call is submitted) and one second
  after fourteen days (the call is refused).\<close>

theorem cancelOrder_grace_deadline_witness:
  "take 2 (fst (cancelOrder makerSession 42)) = [Call_orders 42, Call_cancelOrder 42] \<and>
   cancelOrder lateSession 42 =
     ([Call_orders 42], Inl ''Failed to cancel order: Grace period has expired'')"
  using cancelOrder_grace_deadline [of makerSession "''0xM''" 42 stored42 1700000000]
    cancelOrder_grace_deadline [of lateSession "''0xM''" 42 stored42 1700000000]
  by (simp add: makerSession_def lateSession_def stored42_def unreachable_def)

text \<open>C2 as stated fails when the ledger reports other constants than the defaults. With
  a seven-day lifetime and no grace period, the cancellation of order 42 is still submitted
  after lifetime plus grace period have passed; with a thirty-day grace period it is
  refused while the order is inside lifetime plus grace period.\<close>

theorem cancelOrder_ignores_reported_constants:
  "getOrderExpiryInfo shortGraceSession = \<lparr>orderExpiry = 604800, gracePeriod = 0\<rparr> \<and>
   Date_now shortGraceSession div 1000 >
     js_val (os_timestamp stored42) + int (orderExpiry (getOrderExpiryInfo shortGraceSession)) +
       int (gracePeriod (getOrderExpiryInfo shortGraceSession)) \<and>
   cancelOrder shortGraceSession 42 =
     ([Call_orders 42, Call_cancelOrder 42], Inl ''Failed to cancel order: network error'') \<and>
   getOrderExpiryInfo longGraceSession = \<lparr>orderExpiry = 604800, gracePeriod = 2592000\<rparr> \<and>
   Date_now longGraceSession div 1000 \<le>
     js_val (os_timestamp stored42) + int (orderExpiry (getOrderExpiryInfo longGraceSession)) +
       int (gracePeriod (getOrderExpiryInfo longGraceSession)) \<and>
   cancelOrder longGraceSession 42 =
     ([Call_orders 42], Inl ''Failed to cancel order: Grace period has expired'')"
  by (simp add: cancelOrder_def Let_def js_gt_def rethrow_pair throw_def getOrderExpiryInfo_def
      shortGraceSession_def longGraceSession_def makerSession_def stored42_def unreachable_def)

text \<open>C3, as amended: with a signer connected and the creation fee read, a request whose
  sell token or buy token is the zero address, whose tokens are equal, or whose sell or
  buy amount is not positive is rejected with the message of a rule it violates, after the
  fee read alone: no approval and no creation is submitted.\<close>

theorem createOrder_invalid_input:
  assumes "signer w = Some s" and "contract_orderCreationFee w = Inr fee"
    and "op_sellToken p = ZeroAddress \<or> op_buyToken p = ZeroAddress \<or>
         op_sellToken p = op_buyToken p \<or> op_sellAmount p \<le> 0 \<or> op_buyAmount p \<le> 0"
  shows "\<exists>rule.
           createOrder w p =
             ([Call_orderCreationFee], Inl (''Failed to create order: '' @ rule)) \<and>
           (rule = ''Invalid sell token'' \<and> op_sellToken p = ZeroAddress \<or>
            rule = ''Invalid buy token'' \<and> op_buyToken p = ZeroAddress \<or>
            rule = ''Cannot swap same token'' \<and> op_sellToken p = op_buyToken p \<or>
            rule = ''Invalid sell amount'' \<and> op_sellAmount p \<le> 0 \<or>
            rule = ''Invalid buy amount'' \<and> op_buyAmount p \<le> 0)"
  using assms
  by (auto simp: createOrder_def Let_def throw_def rethrow_pair)

text \<open>Selling and buying token \<open>0xA\<close>.\<close>

theorem createOrder_invalid_input_witness:
  "createOrder makerSession sameToken =
     ([Call_orderCreationFee], Inl ''Failed to create order: Cannot swap same token'')"
  using createOrder_invalid_input [of makerSession "''0xM''" 1000 sameToken]
  by (simp add: makerSession_def sameToken_def unreachable_def ZeroAddress_def)

text \<open>C3 as stated fails: the same request has caused a remote call (the fee read) by the
  time it is rejected; and when that read is rejected, or no signer is connected, the
  error is not the validation error.\<close>

theorem createOrder_reads_fee_first:
  "op_sellToken sameToken = op_buyToken sameToken \<and>
   fst (createOrder makerSession sameToken) = [Call_orderCreationFee] \<and>
   createOrder (makerSession\<lparr>contract_orderCreationFee := Inl ''network error''\<rparr>) sameToken =
     ([Call_orderCreationFee], Inl ''Failed to create order: network error'') \<and>
   createOrder unreachable sameToken = ([], Inl ''No signer connected'')"
  by (simp add: createOrder_def Let_def throw_def rethrow_pair makerSession_def sameToken_def
      unreachable_def ZeroAddress_def)

text \<open>C6: the code at the failing input. Order 42 is active, two days old and restricted
  to taker \<open>0xT\<close>; signer \<open>0xS\<close> fills it. The expiry test adds a \<^verbatim>\<open>number\<close> to the stored
  \<^verbatim>\<open>bigint\<close> timestamp and throws before the taker check is reached: the call is rejected,
  with no approval and no fill submitted, but not with \<open>Not authorized to fill this order\<close>.\<close>

theorem fillOrder_stranger_TypeError:
  "os_isActive stored42 \<and> os_taker stored42 \<noteq> ZeroAddress \<and>
   signer strangerSession = Some ''0xS'' \<and> os_taker stored42 \<noteq> ''0xS'' \<and>
   Date_now strangerSession div 1000 \<le> js_val (os_timestamp stored42) + 7 * 24 * 60 * 60 \<and>
   fillOrder strangerSession fill42 =
     ([Call_orders 42],
      Inl ''Failed to fill order: Cannot mix BigInt and other types, use explicit conversions'')"
  by (simp add: fillOrder_def Let_def rethrow_pair MixError_def strangerSession_def
      makerSession_def stored42_def fill42_def unreachable_def ZeroAddress_def)

text \<open>C8: when a signer is connected and the cleanup transaction is confirmed with a
  receipt, \<^verbatim>\<open>cleanupExpiredOrders\<close> returns four lists whose lengths are the numbers of logs
  of the receipt named \<open>OrderCleanedUp\<close>, \<open>CleanupError\<close>, \<open>RetryOrder\<close> and
  \<open>CleanupFeesDistributed\<close>.\<close>

theorem cleanupExpiredOrders_counts:
  assumes "signer w = Some s" and "contract_cleanupExpiredOrders w = Inr (Inr rcpt)"
  shows "\<exists>res.
           cleanupExpiredOrders w = ([Call_cleanupExpiredOrders, Call_wait], Inr res) \<and>
           length (cleanedOrders res) =
             count_list (map fragment_name (logs rcpt)) (Some ''OrderCleanedUp'') \<and>
           length (errors res) =
             count_list (map fragment_name (logs rcpt)) (Some ''CleanupError'') \<and>
           length (retries res) =
             count_list (map fragment_name (logs rcpt)) (Some ''RetryOrder'') \<and>
           length (feesDistributed res) =
             count_list (map fragment_name (logs rcpt)) (Some ''CleanupFeesDistributed'')"
  using assms
  by (simp add: cleanupExpiredOrders_def Let_def resolve_def rethrow_pair length_filterLogs)

text \<open>A receipt with two \<open>OrderCleanedUp\<close> logs and one \<open>CleanupError\<close> log.\<close>

theorem cleanupExpiredOrders_counts_witness:
  "\<exists>res.
     cleanupExpiredOrders cleanupSession = ([Call_cleanupExpiredOrders, Call_wait], Inr res) \<and>
     length (cleanedOrders res) = 2 \<and> length (errors res) = 1 \<and>
     retries res = [] \<and> feesDistributed res = []"
  using cleanupExpiredOrders_counts [of cleanupSession "''0xS''" cleanupReceipt]
  by (simp add: cleanupSession_def cleanupReceipt_def unreachable_def numeral_2_eq_2)

text \<open>C9: the code at the failing input. The designated taker of order 42 is \<open>0xT\<close> and the
  signer is \<open>0xt\<close>, the same address in another letter case. \<^verbatim>\<open>cancelOrder\<close> compares
  exactly and rejects the signer \<open>0xm\<close> as not the maker \<open>0xM\<close>, and the maker filter of
  \<^verbatim>\<open>getActiveOrders\<close> accepts \<open>0xm\<close> for \<open>0xM\<close>; but \<^verbatim>\<open>fillOrder\<close> throws in its expiry test, on
  the \<^verbatim>\<open>bigint\<close> timestamp, before it compares the taker, so the signer is not rejected with
  \<open>Not authorized to fill this order\<close>.\<close>

theorem fillOrder_letter_case_TypeError:
  "toLowerCase ''0xt'' = toLowerCase (os_taker stored42) \<and> ''0xt'' \<noteq> os_taker stored42 \<and>
   fillOrder lowerCaseSession fill42 =
     ([Call_orders 42],
      Inl ''Failed to fill order: Cannot mix BigInt and other types, use explicit conversions'') \<and>
   cancelOrder (makerSession\<lparr>signer := Some ''0xm''\<rparr>) 42 =
     ([Call_orders 42], Inl ''Failed to cancel order: Only maker can cancel order'') \<and>
   filterBy (Some ''0xm'') maker [toOrder order42] = [toOrder order42]"
  by (simp add: fillOrder_def cancelOrder_def Let_def rethrow_pair throw_def MixError_def
      lowerCaseSession_def makerSession_def stored42_def fill42_def unreachable_def
      ZeroAddress_def toLowerCase_def lower_char_def filterBy_def toOrder_def order42_def)

end
